theory Spec2Isabelle
  imports Main "HOL-Library.AList" "HOL-Library.Sublist"
begin

section \<open>Python values and documents\<close>

text \<open>
  Text is a \<^typ>\<open>string\<close> holding the UTF-8 bytes of the Python \<open>str\<close>. The source
  compares, concatenates and (in \<open>test_database\<close>) slices text; the slice counts code
  points, so it is modelled by \<open>py_slice_to\<close> below, which counts UTF-8 lead bytes.
\<close>

text \<open>
  A \<open>bson.ObjectId\<close> is a 12-byte value; \<open>str\<close> of it is its 24-digit lower-case
  hexadecimal form. The model keeps the 96-bit number.
\<close>

datatype objectid = ObjectId (oid_value: nat)

definition hex_digit :: "nat \<Rightarrow> char" where
  "hex_digit n = (''0123456789abcdef'' ! (n mod 16))"

fun hex_digits :: "nat \<Rightarrow> nat \<Rightarrow> string" where
  "hex_digits 0 n = []"
| "hex_digits (Suc w) n = hex_digits w (n div 16) @ [hex_digit n]"

definition str_oid :: "objectid \<Rightarrow> string" where
  "str_oid oid = hex_digits 24 (oid_value oid)"

text \<open>
  A \<open>datetime.datetime\<close>: the calendar fields, and the UTC offset of its \<open>tzinfo\<close> in
  whole minutes (\<open>None\<close> for a naive datetime).
\<close>

record datetime =
  year :: nat
  month :: nat
  day :: nat
  hour :: nat
  minute :: nat
  second :: nat
  microsecond :: nat
  utcoffset :: "int option"

definition dec_digit :: "nat \<Rightarrow> char" where
  "dec_digit n = (''0123456789'' ! (n mod 10))"

fun dec_digits :: "nat \<Rightarrow> nat \<Rightarrow> string" where
  "dec_digits 0 n = []"
| "dec_digits (Suc w) n = dec_digits w (n div 10) @ [dec_digit n]"

definition format_offset :: "int option \<Rightarrow> string" where
  "format_offset off =
     (case off of
        None \<Rightarrow> []
      | Some m \<Rightarrow>
          (if m < 0 then ''-'' else ''+'')
          @ dec_digits 2 (nat \<bar>m\<bar> div 60) @ '':'' @ dec_digits 2 (nat \<bar>m\<bar> mod 60))"

text \<open>\<open>datetime.isoformat()\<close>: \<open>YYYY-MM-DDTHH:MM:SS[.ffffff][+HH:MM]\<close>.\<close>

definition isoformat :: "datetime \<Rightarrow> string" where
  "isoformat t =
     dec_digits 4 (year t) @ ''-'' @ dec_digits 2 (month t) @ ''-'' @ dec_digits 2 (day t)
     @ ''T'' @ dec_digits 2 (hour t) @ '':'' @ dec_digits 2 (minute t)
     @ '':'' @ dec_digits 2 (second t)
     @ (if microsecond t \<noteq> 0 then ''.'' @ dec_digits 6 (microsecond t) else [])
     @ format_offset (utcoffset t)"

text \<open>
  The values a document can hold. Only the outermost value of a field is inspected by
  \<open>serialize_doc\<close>, so lists and nested mappings are values like any other.
\<close>

datatype pyval =
    VNone
  | VBool bool
  | VInt int
  | VStr string
  | VObjectId objectid
  | VDatetime datetime
  | VList "pyval list"
  | VDict "(string \<times> pyval) list"

text \<open>
  A \<open>dict\<close> with text keys, as an association list in insertion order. A well-formed
  \<open>dict\<close> has each key once: \<open>distinct (map fst d)\<close>.
\<close>

type_synonym doc = "(string \<times> pyval) list"

section \<open>Utility helpers\<close>

text \<open>
  The body of the loop of \<open>serialize_doc\<close>, for one value:
  \<^verbatim>\<open>
        if isinstance(v, ObjectId):
            out[k] = str(v)
        elif isinstance(v, datetime):
            out[k] = v.isoformat()
        else:
            out[k] = v
  \<close>
\<close>

fun serialize_value :: "pyval \<Rightarrow> pyval" where
  "serialize_value (VObjectId oid) = VStr (str_oid oid)"
| "serialize_value (VDatetime t) = VStr (isoformat t)"
| "serialize_value v = v"

text \<open>
  \<^verbatim>\<open>
  def serialize_doc(doc: dict):
      if not doc:
          return doc
      out = {}
      for k, v in doc.items():
          ...
      return out
  \<close>
  The argument is \<open>None\<close> or a \<open>dict\<close>; \<open>not doc\<close> holds of \<open>None\<close> and of the empty
  \<open>dict\<close>. The assignment \<open>out[k] = ...\<close> is \<open>AList.update\<close>.
\<close>

definition serialize_doc :: "doc option \<Rightarrow> doc option" where
  "serialize_doc doc =
     (case doc of
        None \<Rightarrow> None
      | Some d \<Rightarrow>
          if d = [] then Some d
          else Some (fold (\<lambda>(k, v) out. AList.update k (serialize_value v) out) d []))"

text \<open>Whether a value is an \<open>ObjectId\<close> or a \<open>datetime\<close>, and the values of a
  document (none for \<open>None\<close>).\<close>

definition is_oid_or_datetime :: "pyval \<Rightarrow> bool" where
  "is_oid_or_datetime v = (case v of VObjectId _ \<Rightarrow> True | VDatetime _ \<Rightarrow> True | _ \<Rightarrow> False)"

definition doc_values :: "doc option \<Rightarrow> pyval list" where
  "doc_values doc = (case doc of None \<Rightarrow> [] | Some d \<Rightarrow> map snd d)"

text \<open>
  \<open>s[:n]\<close> on text: the first \<open>n\<close> code points. In UTF-8 a code point is a lead byte
  followed by its continuation bytes (\<open>0x80\<close> to \<open>0xBF\<close>).
\<close>

definition is_continuation :: "char \<Rightarrow> bool" where
  "is_continuation c = ((of_char c :: nat) div 64 = 2)"

fun py_slice_to :: "nat \<Rightarrow> string \<Rightarrow> string" where
  "py_slice_to n [] = []"
| "py_slice_to n (c # cs) =
     (if is_continuation c then c # py_slice_to n cs
      else (case n of 0 \<Rightarrow> [] | Suc m \<Rightarrow> c # py_slice_to m cs))"

section \<open>The database module\<close>

text \<open>
  \<open>main.py\<close> imports \<open>db\<close>, \<open>create_document\<close> and \<open>get_documents\<close> from the module
  \<open>database\<close>. The state they act on is the store: whether the connection was
  established (\<open>db is not None\<close>), the name of the database, the collections with
  their documents in the store's default order, the source of fresh identifiers, the
  clock, the faults the store will raise on its next operations (\<open>Some text\<close>: the
  operation fails with that error text; \<open>None\<close>, or no entry: it succeeds), and the
  log of the calls made to the store.
\<close>

datatype store_call = InsertOne string | Find string int | ListCollectionNames

record store =
  db_connected :: bool
  db_name :: "string option"
  db_collections :: "(string \<times> doc list) list"
  db_next_oid :: nat
  db_clock :: datetime
  db_faults :: "string option list"
  db_calls :: "store_call list"

definition documents :: "store \<Rightarrow> string \<Rightarrow> doc list" where
  "documents s collection_name =
     (case map_of (db_collections s) collection_name of None \<Rightarrow> [] | Some ds \<Rightarrow> ds)"

datatype storage_error =
    StorageUnavailableError
  | StorageWriteError string
  | StorageReadError string

text \<open>
  \<open>str(e)\<close> of a storage error. The text of \<open>StorageUnavailableError\<close> is not given
  anywhere; no statement below depends on the text chosen here.
\<close>

fun str_error :: "storage_error \<Rightarrow> string" where
  "str_error StorageUnavailableError = ''Database not available''"
| "str_error (StorageWriteError text) = text"
| "str_error (StorageReadError text) = text"

text \<open>
  Modelled from the spec: \<open>create_document\<close> of the module \<open>database\<close>, which is not
  among the sources. "\<open>insert(collection_name, record) -> identifier\<close>: serializes the
  validated record (as a plain field mapping) and writes it to the named collection.
  Returns a newly generated unique identifier as a string. Fails with
  \<open>StorageUnavailableError\<close> if the store connection was never established, or
  \<open>StorageWriteError\<close> if the write itself fails"; "every stored record carries a
  store-assigned unique identifier and an implicit insertion timestamp". The spec does
  not name the two added fields; they are \<open>_id\<close> and \<open>created_at\<close> here. A record
  given as a pydantic model is passed as its \<open>model_dump()\<close>.
\<close>

definition create_document :: "store \<Rightarrow> string \<Rightarrow> doc \<Rightarrow> (storage_error + string) \<times> store" where
  "create_document s collection_name data =
     (let s0 = s\<lparr>db_calls := db_calls s @ [InsertOne collection_name]\<rparr> in
      if \<not> db_connected s then (Inl StorageUnavailableError, s0)
      else
        (case db_faults s of
           Some text # rest \<Rightarrow> (Inl (StorageWriteError text), s0\<lparr>db_faults := rest\<rparr>)
         | _ \<Rightarrow>
             (let oid = ObjectId (db_next_oid s);
                  stored = AList.update ''created_at'' (VDatetime (db_clock s))
                             (AList.update ''_id'' (VObjectId oid) data)
              in (Inr (str_oid oid),
                  s0\<lparr>db_faults := tl (db_faults s),
                     db_next_oid := db_next_oid s + 1,
                     db_collections :=
                       AList.update collection_name (documents s collection_name @ [stored])
                         (db_collections s)\<rparr>))))"

text \<open>
  Modelled from the spec: \<open>get_documents\<close> of the module \<open>database\<close>, which is not
  among the sources. "\<open>query(collection_name, limit) -> ordered sequence of record\<close>:
  returns up to \<open>limit\<close> records from the named collection, order defined by the
  store's natural/default ordering"; it fails when the connection was never established
  and on a read failure of the store. (The conversion of identifiers and datetimes that
  the spec lists under the query is \<open>serialize_doc\<close>, applied by the endpoints.)
\<close>

definition get_documents :: "store \<Rightarrow> string \<Rightarrow> int \<Rightarrow> (storage_error + doc list) \<times> store" where
  "get_documents s collection_name limit =
     (let s0 = s\<lparr>db_calls := db_calls s @ [Find collection_name limit]\<rparr> in
      if \<not> db_connected s then (Inl StorageUnavailableError, s0)
      else
        (case db_faults s of
           Some text # rest \<Rightarrow> (Inl (StorageReadError text), s0\<lparr>db_faults := rest\<rparr>)
         | _ \<Rightarrow>
             (Inr (take (nat limit) (documents s collection_name)),
              s0\<lparr>db_faults := tl (db_faults s)\<rparr>)))"

text \<open>
  Modelled from the spec: \<open>db.list_collection_names()\<close>, of the object \<open>db\<close> that the
  module \<open>database\<close> exports. "\<open>collection_names() -> set of string\<close>: lists existing
  collection names"; it can fail like any other operation of the store.
\<close>

definition list_collection_names :: "store \<Rightarrow> (storage_error + string list) \<times> store" where
  "list_collection_names s =
     (let s0 = s\<lparr>db_calls := db_calls s @ [ListCollectionNames]\<rparr> in
      case db_faults s of
        Some text # rest \<Rightarrow> (Inl (StorageReadError text), s0\<lparr>db_faults := rest\<rparr>)
      | _ \<Rightarrow> (Inr (map fst (db_collections s)), s0\<lparr>db_faults := tl (db_faults s)\<rparr>))"

section \<open>Schemas\<close>

record BookingCreate =
  student_name :: string
  email :: string
  phone :: string
  service :: string
  instructor :: "string option"
  date :: string
  time :: string
  pickup_location :: "string option"
  "notes" :: "string option"

record LeadCreate =
  name :: string
  email :: string
  phone :: "string option"
  source :: string
  message :: "string option"
  tag :: "string option"

record ContactMessage =
  name :: string
  email :: string
  subject :: string
  message :: string

record EmailTemplate =
  key :: string
  subject :: string
  html :: string

text \<open>\<open>model_dump()\<close>: the fields in the order of their declaration; \<open>None\<close> for an
  optional field that holds nothing.\<close>

definition optional_value :: "string option \<Rightarrow> pyval" where
  "optional_value v = (case v of None \<Rightarrow> VNone | Some text \<Rightarrow> VStr text)"

definition BookingCreate_model_dump :: "BookingCreate \<Rightarrow> doc" where
  "BookingCreate_model_dump p =
     [(''student_name'', VStr (student_name p)),
      (''email'', VStr (BookingCreate.email p)),
      (''phone'', VStr (BookingCreate.phone p)),
      (''service'', VStr (service p)),
      (''instructor'', optional_value (instructor p)),
      (''date'', VStr (date p)),
      (''time'', VStr (time p)),
      (''pickup_location'', optional_value (pickup_location p)),
      (''notes'', optional_value (notes p))]"

definition LeadCreate_model_dump :: "LeadCreate \<Rightarrow> doc" where
  "LeadCreate_model_dump p =
     [(''name'', VStr (LeadCreate.name p)),
      (''email'', VStr (LeadCreate.email p)),
      (''phone'', optional_value (LeadCreate.phone p)),
      (''source'', VStr (source p)),
      (''message'', optional_value (LeadCreate.message p)),
      (''tag'', optional_value (tag p))]"

definition ContactMessage_model_dump :: "ContactMessage \<Rightarrow> doc" where
  "ContactMessage_model_dump p =
     [(''name'', VStr (ContactMessage.name p)),
      (''email'', VStr (ContactMessage.email p)),
      (''subject'', VStr (ContactMessage.subject p)),
      (''message'', VStr (ContactMessage.message p))]"

section \<open>Request validation\<close>

text \<open>
  The framework builds the payload of a \<open>POST\<close> endpoint from the JSON object of the
  request before it calls the endpoint's function, following the declaration of the
  schema class: a field without default is required; \<open>str\<close> accepts text only;
  \<open>Optional[str]\<close> accepts text or \<open>null\<close>; \<open>EmailStr\<close> accepts text that the
  address validator accepts and holds the address as the validator normalises it;
  fields the class does not declare are ignored. All failing fields are reported. The
  address validator is a library of its own and is a parameter here:
  \<open>validate_email text\<close> is \<open>None\<close> for a malformed address.
\<close>

datatype issue = Missing | StringType | ValueError

type_synonym issues = "(string \<times> issue) list"

definition str_field :: "doc \<Rightarrow> string \<Rightarrow> issues + string" where
  "str_field body k =
     (case map_of body k of
        None \<Rightarrow> Inl [(k, Missing)]
      | Some (VStr text) \<Rightarrow> Inr text
      | Some _ \<Rightarrow> Inl [(k, StringType)])"

definition str_field_default :: "doc \<Rightarrow> string \<Rightarrow> string \<Rightarrow> issues + string" where
  "str_field_default body k dflt =
     (case map_of body k of
        None \<Rightarrow> Inr dflt
      | Some (VStr text) \<Rightarrow> Inr text
      | Some _ \<Rightarrow> Inl [(k, StringType)])"

definition optional_str_field :: "doc \<Rightarrow> string \<Rightarrow> issues + string option" where
  "optional_str_field body k =
     (case map_of body k of
        None \<Rightarrow> Inr None
      | Some VNone \<Rightarrow> Inr None
      | Some (VStr text) \<Rightarrow> Inr (Some text)
      | Some _ \<Rightarrow> Inl [(k, StringType)])"

definition email_field :: "(string \<Rightarrow> string option) \<Rightarrow> doc \<Rightarrow> string \<Rightarrow> issues + string" where
  "email_field validate_email body k =
     (case map_of body k of
        None \<Rightarrow> Inl [(k, Missing)]
      | Some (VStr text) \<Rightarrow>
          (case validate_email text of
             None \<Rightarrow> Inl [(k, ValueError)]
           | Some address \<Rightarrow> Inr address)
      | Some _ \<Rightarrow> Inl [(k, StringType)])"

definition field_issues :: "issues + 'a \<Rightarrow> issues" where
  "field_issues r = (case r of Inl es \<Rightarrow> es | Inr _ \<Rightarrow> [])"

definition validate_BookingCreate ::
  "(string \<Rightarrow> string option) \<Rightarrow> doc \<Rightarrow> issues + BookingCreate" where
  "validate_BookingCreate validate_email body =
     (let f1 = str_field body ''student_name'';
          f2 = email_field validate_email body ''email'';
          f3 = str_field body ''phone'';
          f4 = str_field body ''service'';
          f5 = optional_str_field body ''instructor'';
          f6 = str_field body ''date'';
          f7 = str_field body ''time'';
          f8 = optional_str_field body ''pickup_location'';
          f9 = optional_str_field body ''notes'';
          es = field_issues f1 @ field_issues f2 @ field_issues f3 @ field_issues f4
               @ field_issues f5 @ field_issues f6 @ field_issues f7 @ field_issues f8
               @ field_issues f9
      in if es \<noteq> [] then Inl es
         else Inr \<lparr>student_name = projr f1, BookingCreate.email = projr f2,
                   BookingCreate.phone = projr f3, service = projr f4,
                   instructor = projr f5, date = projr f6, time = projr f7,
                   pickup_location = projr f8, notes = projr f9\<rparr>)"

definition validate_LeadCreate ::
  "(string \<Rightarrow> string option) \<Rightarrow> doc \<Rightarrow> issues + LeadCreate" where
  "validate_LeadCreate validate_email body =
     (let f1 = str_field body ''name'';
          f2 = email_field validate_email body ''email'';
          f3 = optional_str_field body ''phone'';
          f4 = str_field_default body ''source'' ''website'';
          f5 = optional_str_field body ''message'';
          f6 = optional_str_field body ''tag'';
          es = field_issues f1 @ field_issues f2 @ field_issues f3 @ field_issues f4
               @ field_issues f5 @ field_issues f6
      in if es \<noteq> [] then Inl es
         else Inr \<lparr>LeadCreate.name = projr f1, LeadCreate.email = projr f2,
                   LeadCreate.phone = projr f3, source = projr f4,
                   LeadCreate.message = projr f5, tag = projr f6\<rparr>)"

definition validate_ContactMessage ::
  "(string \<Rightarrow> string option) \<Rightarrow> doc \<Rightarrow> issues + ContactMessage" where
  "validate_ContactMessage validate_email body =
     (let f1 = str_field body ''name'';
          f2 = email_field validate_email body ''email'';
          f3 = str_field body ''subject'';
          f4 = str_field body ''message'';
          es = field_issues f1 @ field_issues f2 @ field_issues f3 @ field_issues f4
      in if es \<noteq> [] then Inl es
         else Inr \<lparr>ContactMessage.name = projr f1, ContactMessage.email = projr f2,
                   ContactMessage.subject = projr f3,
                   ContactMessage.message = projr f4\<rparr>)"

text \<open>
  The fields each schema requires (those declared without a default), and whether the
  body holds an address that the validator rejects.
\<close>

definition BookingCreate_required :: "string list" where
  "BookingCreate_required =
     [''student_name'', ''email'', ''phone'', ''service'', ''date'', ''time'']"

definition LeadCreate_required :: "string list" where
  "LeadCreate_required = [''name'', ''email'']"

definition ContactMessage_required :: "string list" where
  "ContactMessage_required = [''name'', ''email'', ''subject'', ''message'']"

definition malformed_email :: "(string \<Rightarrow> string option) \<Rightarrow> doc \<Rightarrow> bool" where
  "malformed_email validate_email body =
     (case map_of body ''email'' of
        Some (VStr text) \<Rightarrow> validate_email text = None
      | _ \<Rightarrow> False)"

section \<open>Endpoints\<close>

text \<open>
  What a request ends with when it does not return: the framework's rejection of the
  request body, or the \<open>HTTPException\<close> an endpoint raises.
\<close>

datatype failure =
    RequestValidationError issues
  | HTTPException (status_code: nat) (detail: string)

text \<open>Truth of an optional text (\<open>None\<close> and the empty text are falsy), and
  \<open>x or dflt\<close>.\<close>

definition truthy :: "string option \<Rightarrow> bool" where
  "truthy x = (case x of None \<Rightarrow> False | Some text \<Rightarrow> text \<noteq> [])"

definition or_text :: "string option \<Rightarrow> string \<Rightarrow> string" where
  "or_text x dflt =
     (case x of None \<Rightarrow> dflt | Some text \<Rightarrow> if text = [] then dflt else text)"

text \<open>
  \<open>create_booking\<close>. \<open>lead = payload.model_dump()\<close> holds the fields of the payload, so
  \<open>lead.get(f)\<close> is the field \<open>f\<close> of the payload; \<open>lead_doc\<close> is the local variable of
  that name. Each \<open>create_document\<close> can raise; the \<open>except\<close> clause turns what it
  raised into the \<open>HTTPException\<close>.
\<close>

definition lead_doc :: "BookingCreate \<Rightarrow> doc" where
  "lead_doc lead =
     [(''name'', VStr (student_name lead)),
      (''email'', VStr (BookingCreate.email lead)),
      (''phone'', VStr (BookingCreate.phone lead)),
      (''source'', VStr ''booking''),
      (''tag'', VStr (service lead)),
      (''message'',
       VStr (''Booking requested for '' @ service lead @ '' on '' @ date lead
             @ '' at '' @ time lead @ '' with instructor ''
             @ or_text (instructor lead) ''Any'' @ ''.''))]"

definition create_booking :: "store \<Rightarrow> BookingCreate \<Rightarrow> (failure + doc) \<times> store" where
  "create_booking s payload =
     (case create_document s ''booking'' (BookingCreate_model_dump payload) of
        (Inl e, s1) \<Rightarrow> (Inl (HTTPException 500 (str_error e)), s1)
      | (Inr booking_id, s1) \<Rightarrow>
          (case create_document s1 ''lead'' (lead_doc payload) of
             (Inl e, s2) \<Rightarrow> (Inl (HTTPException 500 (str_error e)), s2)
           | (Inr lead_id, s2) \<Rightarrow>
               (Inr [(''success'', VBool True), (''booking_id'', VStr booking_id)], s2)))"

definition list_bookings :: "store \<Rightarrow> int \<Rightarrow> (failure + doc option list) \<times> store" where
  "list_bookings s limit =
     (case get_documents s ''booking'' limit of
        (Inl e, s1) \<Rightarrow> (Inl (HTTPException 500 (str_error e)), s1)
      | (Inr docs, s1) \<Rightarrow> (Inr (map (\<lambda>d. serialize_doc (Some d)) docs), s1))"

definition create_lead :: "store \<Rightarrow> LeadCreate \<Rightarrow> (failure + doc) \<times> store" where
  "create_lead s payload =
     (case create_document s ''lead'' (LeadCreate_model_dump payload) of
        (Inl e, s1) \<Rightarrow> (Inl (HTTPException 500 (str_error e)), s1)
      | (Inr lead_id, s1) \<Rightarrow>
          (Inr [(''success'', VBool True), (''lead_id'', VStr lead_id)], s1))"

definition list_leads :: "store \<Rightarrow> int \<Rightarrow> (failure + doc option list) \<times> store" where
  "list_leads s limit =
     (case get_documents s ''lead'' limit of
        (Inl e, s1) \<Rightarrow> (Inl (HTTPException 500 (str_error e)), s1)
      | (Inr docs, s1) \<Rightarrow> (Inr (map (\<lambda>d. serialize_doc (Some d)) docs), s1))"

definition contact :: "store \<Rightarrow> ContactMessage \<Rightarrow> (failure + doc) \<times> store" where
  "contact s payload =
     (let doc = ContactMessage_model_dump payload;
          doc = AList.update ''source'' (VStr ''contact'') doc
      in case create_document s ''lead'' doc of
           (Inl e, s1) \<Rightarrow> (Inl (HTTPException 500 (str_error e)), s1)
         | (Inr lead_id, s1) \<Rightarrow>
             (Inr [(''success'', VBool True), (''lead_id'', VStr lead_id)], s1))"

text \<open>
  The routes \<open>POST /api/bookings\<close>, \<open>POST /api/leads\<close> and \<open>POST /api/contact\<close>: the
  framework validates the body against the schema of the endpoint's parameter and calls
  the endpoint only with a payload.
\<close>

definition post_api_bookings ::
  "(string \<Rightarrow> string option) \<Rightarrow> store \<Rightarrow> doc \<Rightarrow> (failure + doc) \<times> store" where
  "post_api_bookings validate_email s body =
     (case validate_BookingCreate validate_email body of
        Inl es \<Rightarrow> (Inl (RequestValidationError es), s)
      | Inr payload \<Rightarrow> create_booking s payload)"

definition post_api_leads ::
  "(string \<Rightarrow> string option) \<Rightarrow> store \<Rightarrow> doc \<Rightarrow> (failure + doc) \<times> store" where
  "post_api_leads validate_email s body =
     (case validate_LeadCreate validate_email body of
        Inl es \<Rightarrow> (Inl (RequestValidationError es), s)
      | Inr payload \<Rightarrow> create_lead s payload)"

definition post_api_contact ::
  "(string \<Rightarrow> string option) \<Rightarrow> store \<Rightarrow> doc \<Rightarrow> (failure + doc) \<times> store" where
  "post_api_contact validate_email s body =
     (case validate_ContactMessage validate_email body of
        Inl es \<Rightarrow> (Inl (RequestValidationError es), s)
      | Inr payload \<Rightarrow> contact s payload)"

section \<open>Diagnostics\<close>

text \<open>The symbols of the status texts, in UTF-8: U+2705, U+274C, and U+26A0 U+FE0F.\<close>

definition check_mark :: string where
  "check_mark = [CHR 0xE2, CHR 0x9C, CHR 0x85]"

definition cross_mark :: string where
  "cross_mark = [CHR 0xE2, CHR 0x9D, CHR 0x8C]"

definition warning_sign :: string where
  "warning_sign = [CHR 0xE2, CHR 0x9A, CHR 0xA0, CHR 0xEF, CHR 0xB8, CHR 0x8F]"

record test_response =
  backend :: string
  database :: string
  database_url :: string
  database_name :: string
  connection_status :: string
  collections :: "string list"

text \<open>
  \<open>test_database\<close>. Its arguments are the value of \<open>os.getenv("DATABASE_URL")\<close> and
  the store. \<open>db is not None\<close> is \<open>db_connected\<close>; \<open>hasattr(db, 'name')\<close> is
  \<open>db_name s \<noteq> None\<close>. The one expression of the body that can raise is
  \<open>db.list_collection_names()\<close>, inside the inner \<open>try\<close>, whose \<open>except\<close> clause is
  the \<open>Inl\<close> branch; nothing reaches the outer \<open>except\<close> clause. The function has no
  failure among its results because each fault is handled in its body.
\<close>

definition test_database :: "string option \<Rightarrow> store \<Rightarrow> test_response \<times> store" where
  "test_database getenv_DATABASE_URL s =
     (let response =
            \<lparr>backend = check_mark @ '' Running'',
             database = cross_mark @ '' Not Available'',
             database_url = cross_mark @ '' Not Set'',
             database_name = cross_mark @ '' Not Set'',
             connection_status = ''Not Connected'',
             collections = []\<rparr>
      in if db_connected s then
           (let response = response\<lparr>database := check_mark @ '' Available''\<rparr>;
                response = response
                  \<lparr>database_url :=
                     (if truthy getenv_DATABASE_URL then check_mark @ '' Set''
                      else cross_mark @ '' Not Set'')\<rparr>;
                response = response
                  \<lparr>database_name :=
                     (case db_name s of Some n \<Rightarrow> n | None \<Rightarrow> check_mark @ '' Connected'')\<rparr>;
                response = response\<lparr>connection_status := ''Connected''\<rparr>
            in case list_collection_names s of
                 (Inr names, s1) \<Rightarrow>
                   (response\<lparr>collections := take 15 names,
                             database := check_mark @ '' Connected & Working''\<rparr>, s1)
               | (Inl e, s1) \<Rightarrow>
                   (response\<lparr>database := warning_sign @ '' Connected but Error: ''
                                           @ py_slice_to 80 (str_error e)\<rparr>, s1))
         else (response\<lparr>database := warning_sign @ '' Available but not initialized''\<rparr>, s))"

section \<open>Email templates\<close>

text \<open>
  \<open>str.strip()\<close> removes the white space at both ends. The white-space characters of
  ASCII are listed; the templates begin and end with these only.
\<close>

definition is_space :: "char \<Rightarrow> bool" where
  "is_space c = (of_char c \<in> {9, 10, 11, 12, 13, 28, 29, 30, 31, 32 :: nat})"

definition strip :: "string \<Rightarrow> string" where
  "strip text = rev (dropWhile is_space (rev (dropWhile is_space text)))"

definition nl :: string where
  "nl = [CHR 0x0A]"

definition indent :: string where
  "indent = replicate 12 CHR '' ''"

definition apostrophe :: string where
  "apostrophe = [CHR 0x27]"

definition em_dash :: string where
  "em_dash = [CHR 0xE2, CHR 0x80, CHR 0x94]"

definition brand :: string where
  "brand = ''Geaux Driving''"

definition zutobi_url :: string where
  "zutobi_url = ''https://www.zutobi.com/''"

definition email_templates :: "EmailTemplate list" where
  "email_templates =
     [\<lparr>key = ''welcome'',
       subject = ''Welcome to '' @ brand @ ''! Your Path to Safe, Confident Driving'',
       html = strip (
         nl @
         indent @ ''<h2>Welcome to '' @ brand @ ''!</h2>'' @ nl @
         indent @ ''<p>We'' @ apostrophe @ ''re excited to help you become a safe, ''
           @ ''confident driver. You can book or manage your lessons anytime on our ''
           @ ''website.</p>'' @ nl @
         indent @ ''<p>Before your first lesson, spend 10 minutes reviewing your <a href=''
           @ apostrophe @ zutobi_url @ apostrophe
           @ ''>Zutobi</a> modules to maximize your time in the car.</p>'' @ nl @
         indent @ ''<p>Questions? Just reply to this email. We'' @ apostrophe
           @ ''re here to help!</p>'' @ nl @
         indent @ ''<p>'' @ em_dash @ '' The '' @ brand @ '' Team</p>'' @ nl @
         indent)\<rparr>,
      \<lparr>key = ''booking_confirmation'',
       subject = brand @ '': Your Driving Lesson is Confirmed'',
       html = strip (
         nl @
         indent @ ''<h2>Your lesson is confirmed!</h2>'' @ nl @
         indent @ ''<p>Thank you for booking with '' @ brand @ ''. You'' @ apostrophe
           @ ''ll receive a reminder 24 hours before your lesson.</p>'' @ nl @
         indent @ ''<p>Bring your permit/license and wear comfortable shoes. ''
           @ ''Review your <a href='' @ apostrophe @ zutobi_url @ apostrophe
           @ ''>Zutobi</a> module beforehand.</p>'' @ nl @
         indent @ ''<p>Need to reschedule? Use the link in your confirmation or ''
           @ ''contact support.</p>'' @ nl @
         indent)\<rparr>,
      \<lparr>key = ''post_lesson'',
       subject = brand @ '': Great work today '' @ em_dash
                 @ '' review your evaluation in Zutobi'',
       html = strip (
         nl @
         indent @ ''<h2>Great job behind the wheel!</h2>'' @ nl @
         indent @ ''<p>Your instructor has submitted your evaluation in Zutobi. ''
           @ ''Log in to review your progress and next steps.</p>'' @ nl @
         indent @ ''<p><a href='' @ apostrophe @ zutobi_url @ apostrophe
           @ ''>Access your evaluation</a></p>'' @ nl @
         indent @ ''<p>Keep practicing and see you soon!</p>'' @ nl @
         indent)\<rparr>]"

section \<open>Example data\<close>

text \<open>A store with five bookings and no leads, a store whose connection was never
  established, and one payload of each schema; the concrete instances of the statements
  below are taken at these.\<close>

definition example_clock :: datetime where
  "example_clock =
     \<lparr>year = 2024, month = 1, day = 2, hour = 3, minute = 4, second = 5,
      microsecond = 0, utcoffset = None\<rparr>"

definition example_stored :: "nat \<Rightarrow> doc" where
  "example_stored n =
     [(''student_name'', VStr ''A''),
      (''_id'', VObjectId (ObjectId n)),
      (''created_at'', VDatetime example_clock)]"

definition example_store :: store where
  "example_store =
     \<lparr>db_connected = True,
      db_name = Some ''geaux'',
      db_collections = [(''booking'', map example_stored [11, 12, 13, 14, 15])],
      db_next_oid = 16,
      db_clock = example_clock,
      db_faults = [],
      db_calls = []\<rparr>"

definition example_booking :: BookingCreate where
  "example_booking =
     \<lparr>student_name = ''A'', BookingCreate.email = ''a@b.com'',
      BookingCreate.phone = ''555'', service = ''Road Test Prep'', instructor = None,
      date = ''2024-02-01'', time = ''10:00'', pickup_location = None, notes = None\<rparr>"

definition example_contact_body :: doc where
  "example_contact_body =
     [(''name'', VStr ''A''), (''email'', VStr ''a@b.com''),
      (''subject'', VStr ''Hi''), (''message'', VStr ''test'')]"

definition example_lead_body :: doc where
  "example_lead_body = [(''name'', VStr ''A''), (''email'', VStr ''a@b.com'')]"

section \<open>Serialization: auxiliary facts\<close>

lemma fold_update_fresh:
  "distinct (map fst d) \<Longrightarrow> set (map fst d) \<inter> set (map fst acc) = {} \<Longrightarrow>
   fold (\<lambda>(k, v) out. AList.update k (f v) out) d acc = acc @ map (\<lambda>(k, v). (k, f v)) d"
proof (induction d arbitrary: acc)
  case Nil
  then show ?case by simp
next
  case (Cons kv d)
  obtain k v where kv: "kv = (k, v)" by (cases kv)
  from Cons.prems kv have fresh: "k \<notin> set (map fst acc)" by auto
  have upd: "AList.update k (f v) acc = acc @ [(k, f v)]"
    using fresh by (induction acc) auto
  from Cons.prems kv have d: "distinct (map fst d)" by simp
  from Cons.prems kv have disj: "set (map fst d) \<inter> set (map fst (acc @ [(k, f v)])) = {}"
    by auto
  show ?case
    using Cons.IH [OF d disj] by (simp add: kv upd)
qed

lemma fold_update_map:
  "distinct (map fst d) \<Longrightarrow>
   fold (\<lambda>(k, v) out. AList.update k (f v) out) d [] = map (\<lambda>(k, v). (k, f v)) d"
  using fold_update_fresh [of d "[]" f] by simp

lemma fold_update_keys_distinct:
  "distinct (map fst acc) \<Longrightarrow>
   distinct (map fst (fold (\<lambda>(k, v) out. AList.update k (f v) out) d acc))"
  by (induction d arbitrary: acc) (auto simp: distinct_update)

lemma fold_update_values:
  "\<forall>(k, v) \<in> set acc. P v \<Longrightarrow> \<forall>v. P (f v) \<Longrightarrow>
   \<forall>(k, v) \<in> set (fold (\<lambda>(k, v) out. AList.update k (f v) out) d acc). P v"
proof (induction d arbitrary: acc)
  case Nil
  then show ?case by simp
next
  case (Cons kv d)
  obtain k v where kv: "kv = (k, v)" by (cases kv)
  have "\<forall>(k', v') \<in> set (AList.update k (f v) acc). P v'"
    using Cons.prems by (induction acc) (auto split: if_splits)
  from Cons.IH [OF this Cons.prems(2)] show ?case by (simp add: kv)
qed

lemma serialize_value_idem: "serialize_value (serialize_value v) = serialize_value v"
  by (cases v) simp_all

lemma serialize_value_plain: "\<not> is_oid_or_datetime (serialize_value v)"
  by (cases v) (simp_all add: is_oid_or_datetime_def)

lemma serialize_value_fixed: "\<not> is_oid_or_datetime v \<Longrightarrow> serialize_value v = v"
  by (cases v) (simp_all add: is_oid_or_datetime_def)

lemma map_serialize_fixed:
  "\<forall>(k, v) \<in> set d. \<not> is_oid_or_datetime v \<Longrightarrow>
   map (\<lambda>(k, v). (k, serialize_value v)) d = d"
  by (induction d) (auto simp: serialize_value_fixed)

lemma serialize_doc_Some_idem:
  "serialize_doc (serialize_doc (Some d)) = serialize_doc (Some d)"
proof (cases "d = []")
  case True
  then show ?thesis by (simp add: serialize_doc_def)
next
  case False
  define out where "out = fold (\<lambda>(k, v) out. AList.update k (serialize_value v) out) d []"
  have first: "serialize_doc (Some d) = Some out"
    using False by (simp add: serialize_doc_def out_def)
  have dist: "distinct (map fst out)"
    unfolding out_def by (rule fold_update_keys_distinct) simp
  have plain: "\<forall>(k, v) \<in> set out. \<not> is_oid_or_datetime v"
    unfolding out_def by (rule fold_update_values) (simp_all add: serialize_value_plain)
  have "fold (\<lambda>(k, v) out. AList.update k (serialize_value v) out) out [] = out"
    using fold_update_map [OF dist, of serialize_value] map_serialize_fixed [OF plain] by simp
  then have "serialize_doc (Some out) = Some out"
    by (simp add: serialize_doc_def)
  with first show ?thesis by simp
qed

lemma serialize_doc_Some_plain:
  "filter is_oid_or_datetime (doc_values (serialize_doc (Some d))) = []"
proof (cases "d = []")
  case True
  then show ?thesis by (simp add: serialize_doc_def doc_values_def)
next
  case False
  have "\<forall>(k, v) \<in> set (fold (\<lambda>(k, v) out. AList.update k (serialize_value v) out) d []).
          \<not> is_oid_or_datetime v"
    by (rule fold_update_values) (simp_all add: serialize_value_plain)
  then show ?thesis
    using False by (auto simp: serialize_doc_def doc_values_def filter_empty_conv)
qed

section \<open>Serialization: claims\<close>

text \<open>
  Claim C10. \<open>serialize_doc\<close> is idempotent: serializing its own result changes
  nothing, for every argument (\<open>None\<close> or any \<open>dict\<close>). The values of its result are
  never an \<open>ObjectId\<close> or a \<open>datetime\<close>, and a falsy argument (\<open>None\<close> or the empty
  \<open>dict\<close>) is returned as it is.
\<close>

theorem serialize_doc_idempotent:
  "serialize_doc (serialize_doc doc) = serialize_doc doc
   \<and> filter is_oid_or_datetime (doc_values (serialize_doc doc)) = []
   \<and> serialize_doc None = None
   \<and> serialize_doc (Some []) = Some []"
proof (cases doc)
  case None
  then show ?thesis by (simp add: serialize_doc_def doc_values_def)
next
  case (Some d)
  have "serialize_doc None = None" "serialize_doc (Some []) = Some []"
    by (simp_all add: serialize_doc_def)
  with Some serialize_doc_Some_idem [of d] serialize_doc_Some_plain [of d]
  show ?thesis by simp
qed

theorem serialize_doc_idempotent_witness:
  "serialize_doc (serialize_doc (Some [(''_id'', VObjectId (ObjectId 255)), (''name'', VStr ''A'')]))
     = Some [(''_id'', VStr ''0000000000000000000000ff''), (''name'', VStr ''A'')]"
proof -
  have "serialize_doc (Some [(''_id'', VObjectId (ObjectId 255)), (''name'', VStr ''A'')])
          = Some [(''_id'', VStr ''0000000000000000000000ff''), (''name'', VStr ''A'')]"
    by code_simp
  with serialize_doc_idempotent
         [of "Some [(''_id'', VObjectId (ObjectId 255)), (''name'', VStr ''A'')]"]
  show ?thesis by simp
qed

lemma serialize_doc_distinct:
  "distinct (map fst d) \<Longrightarrow>
   serialize_doc (Some d) = Some (map (\<lambda>(k, v). (k, serialize_value v)) d)"
  by (cases "d = []") (simp_all add: serialize_doc_def fold_update_map)

lemma serialize_value_case:
  "serialize_value v =
     (case v of VObjectId oid \<Rightarrow> VStr (str_oid oid) | VDatetime t \<Rightarrow> VStr (isoformat t) | _ \<Rightarrow> v)"
  by (cases v) simp_all

lemma map_serialize_docs:
  "\<forall>d \<in> set docs. distinct (map fst d) \<Longrightarrow>
   map (\<lambda>d. serialize_doc (Some d)) docs
     = map (\<lambda>d. Some (map (\<lambda>(k, v). (k, serialize_value v)) d)) docs"
  by (induction docs) (simp_all add: serialize_doc_distinct)

lemma example_query:
  "get_documents example_store ''booking'' 1
     = (Inr [example_stored 11], example_store\<lparr>db_calls := [Find ''booking'' 1]\<rparr>)"
  by (simp add: get_documents_def example_store_def documents_def)

text \<open>
  Claim C4. Serialization of a document (a \<open>dict\<close>, so with each key once) keeps the
  keys, in their order, and maps each value on its own: an \<open>ObjectId\<close> to its \<open>str\<close>, a
  \<open>datetime\<close> to its \<open>isoformat()\<close>, any other value to itself. The list endpoints
  return exactly these serializations of the documents that the query yields.
\<close>

theorem list_endpoints_serialize:
  assumes "distinct (map fst d)" and "\<forall>d \<in> set docs. distinct (map fst d)"
  shows "serialize_doc (Some d)
           = Some (map (\<lambda>(k, v).
                     (k, case v of VObjectId oid \<Rightarrow> VStr (str_oid oid)
                                 | VDatetime t \<Rightarrow> VStr (isoformat t)
                                 | _ \<Rightarrow> v)) d)
       \<and> (get_documents s ''booking'' limit = (Inr docs, s1) \<longrightarrow>
            list_bookings s limit
              = (Inr (map (\<lambda>d. Some (map (\<lambda>(k, v).
                     (k, case v of VObjectId oid \<Rightarrow> VStr (str_oid oid)
                                 | VDatetime t \<Rightarrow> VStr (isoformat t)
                                 | _ \<Rightarrow> v)) d)) docs), s1))
       \<and> (get_documents s ''lead'' limit = (Inr docs, s1) \<longrightarrow>
            list_leads s limit
              = (Inr (map (\<lambda>d. Some (map (\<lambda>(k, v).
                     (k, case v of VObjectId oid \<Rightarrow> VStr (str_oid oid)
                                 | VDatetime t \<Rightarrow> VStr (isoformat t)
                                 | _ \<Rightarrow> v)) d)) docs), s1))"
  using serialize_doc_distinct [OF assms(1)] map_serialize_docs [OF assms(2)]
  by (simp add: list_bookings_def list_leads_def serialize_value_case)

theorem list_endpoints_serialize_witness:
  "list_bookings example_store 1
     = (Inr [Some [(''student_name'', VStr ''A''),
                   (''_id'', VStr ''00000000000000000000000b''),
                   (''created_at'', VStr ''2024-01-02T03:04:05'')]],
        example_store\<lparr>db_calls := [Find ''booking'' 1]\<rparr>)"
proof -
  have d: "distinct (map fst (example_stored 11))"
    by (simp add: example_stored_def)
  then have ds: "\<forall>d \<in> set [example_stored 11]. distinct (map fst d)"
    by simp
  have oid: "str_oid (ObjectId 11) = ''00000000000000000000000b''"
    by code_simp
  have iso: "isoformat example_clock = ''2024-01-02T03:04:05''"
    by code_simp
  from list_endpoints_serialize [OF d ds, of example_store 1
         "example_store\<lparr>db_calls := [Find ''booking'' 1]\<rparr>"] example_query
  show ?thesis
    by (simp add: example_stored_def oid iso)
qed

section \<open>List endpoints: the limit\<close>

text \<open>
  Claim C5. For a limit \<open>N \<ge> 0\<close>, a list endpoint that returns, returns at most \<open>N\<close>
  records: as many as the collection holds, up to \<open>N\<close>, one serialized record for each
  document that the query yields. With five stored bookings and \<open>limit=2\<close> that is
  exactly two records.
\<close>

theorem list_endpoints_limit:
  assumes "0 \<le> limit"
  shows "(list_bookings s limit = (Inr rs, s1) \<longrightarrow>
            int (length rs) \<le> limit
            \<and> length rs = min (nat limit) (length (documents s ''booking''))
            \<and> (\<exists>docs. get_documents s ''booking'' limit = (Inr docs, s1)
                       \<and> length rs = length docs))
       \<and> (list_leads s limit = (Inr rs, s1) \<longrightarrow>
            int (length rs) \<le> limit
            \<and> length rs = min (nat limit) (length (documents s ''lead''))
            \<and> (\<exists>docs. get_documents s ''lead'' limit = (Inr docs, s1)
                       \<and> length rs = length docs))"
  using assms
  by (auto simp: list_bookings_def list_leads_def get_documents_def Let_def
           split: if_splits list.splits option.splits)

theorem list_endpoints_limit_witness:
  "length (documents example_store ''booking'') = 5
   \<and> (\<exists>rs s1. list_bookings example_store 2 = (Inr rs, s1) \<and> length rs = 2)"
proof -
  have five: "length (documents example_store ''booking'') = 5"
    by (simp add: documents_def example_store_def)
  obtain r s1 where run: "list_bookings example_store 2 = (r, s1)"
    by (cases "list_bookings example_store 2")
  then obtain rs where ok: "r = Inr rs"
    by (cases r) (auto simp: list_bookings_def get_documents_def example_store_def)
  have "(0::int) \<le> 2" by simp
  from list_endpoints_limit [OF this, of example_store rs s1] run ok five
  have "length rs = 2" by simp
  with run ok five show ?thesis by simp
qed

section \<open>Email templates: the fixed list\<close>

text \<open>
  Claim C9. \<open>email_templates\<close> takes no argument and reads nothing of the store, so its
  result is the same in every store state: three templates, with the keys \<open>welcome\<close>,
  \<open>booking_confirmation\<close> and \<open>post_lesson\<close>, each with a non-empty subject and a
  non-empty html text; every subject contains the brand name and every html text
  contains the link.
\<close>

theorem email_templates_fixed:
  "length email_templates = 3
   \<and> map key email_templates = [''welcome'', ''booking_confirmation'', ''post_lesson'']
   \<and> map (\<lambda>t. subject t \<noteq> [] \<and> html t \<noteq> []) email_templates = [True, True, True]
   \<and> map (\<lambda>t. sublist brand (subject t)) email_templates = [True, True, True]
   \<and> map (\<lambda>t. sublist zutobi_url (html t)) email_templates = [True, True, True]"
  by code_simp

section \<open>Diagnostics: the status report\<close>

text \<open>
  Claim C8. \<open>test_database\<close> returns a status report in every state of the store and
  raises nothing. When the connection was never established the report says so and
  lists no collection; when listing the collections fails the report carries the first
  80 characters of the error text, and the store is left as the failed call left it;
  otherwise the report lists the first 15 collection names.
\<close>

theorem test_database_degrades:
  "(\<not> db_connected s \<longrightarrow>
      test_database env s
        = (\<lparr>backend = check_mark @ '' Running'',
            database = warning_sign @ '' Available but not initialized'',
            database_url = cross_mark @ '' Not Set'',
            database_name = cross_mark @ '' Not Set'',
            connection_status = ''Not Connected'',
            collections = []\<rparr>, s))
   \<and> (db_connected s \<longrightarrow> list_collection_names s = (Inl e, s1) \<longrightarrow>
        snd (test_database env s) = s1
        \<and> database (fst (test_database env s))
            = warning_sign @ '' Connected but Error: '' @ py_slice_to 80 (str_error e)
        \<and> connection_status (fst (test_database env s)) = ''Connected''
        \<and> collections (fst (test_database env s)) = [])
   \<and> (db_connected s \<longrightarrow> list_collection_names s = (Inr names, s1) \<longrightarrow>
        snd (test_database env s) = s1
        \<and> database (fst (test_database env s)) = check_mark @ '' Connected & Working''
        \<and> connection_status (fst (test_database env s)) = ''Connected''
        \<and> collections (fst (test_database env s)) = take 15 names)"
  by (simp add: test_database_def Let_def)

theorem test_database_degrades_witness:
  "database (fst (test_database None (example_store\<lparr>db_faults := [Some ''timed out'']\<rparr>)))
     = warning_sign @ '' Connected but Error: timed out''
   \<and> database (fst (test_database None (example_store\<lparr>db_connected := False\<rparr>)))
     = warning_sign @ '' Available but not initialized''
   \<and> collections (fst (test_database None example_store)) = [''booking'']"
proof -
  have f: "list_collection_names (example_store\<lparr>db_faults := [Some ''timed out'']\<rparr>)
     = (Inl (StorageReadError ''timed out''),
        example_store\<lparr>db_faults := [], db_calls := [ListCollectionNames]\<rparr>)"
    by (simp add: list_collection_names_def example_store_def)
  have g: "list_collection_names example_store
     = (Inr [''booking''], example_store\<lparr>db_calls := [ListCollectionNames]\<rparr>)"
    by (simp add: list_collection_names_def example_store_def)
  have c: "db_connected example_store" "db_connected (example_store\<lparr>db_faults := [Some ''timed out'']\<rparr>)"
    "\<not> db_connected (example_store\<lparr>db_connected := False\<rparr>)"
    by (simp_all add: example_store_def)
  have sl: "py_slice_to 80 ''timed out'' = ''timed out''"
    by code_simp
  from test_database_degrades
         [where s = "example_store\<lparr>db_faults := [Some ''timed out'']\<rparr>" and env = None
            and e = "StorageReadError ''timed out''"
            and ?s1.0 = "example_store\<lparr>db_faults := [], db_calls := [ListCollectionNames]\<rparr>"]
       test_database_degrades
         [where s = "example_store\<lparr>db_connected := False\<rparr>" and env = None]
       test_database_degrades
         [where s = example_store and env = None and names = "[''booking'']"
            and ?s1.0 = "example_store\<lparr>db_calls := [ListCollectionNames]\<rparr>"]
       f g c sl
  show ?thesis by simp
qed

section \<open>Creating records\<close>

lemma create_document_ok:
  assumes "db_connected s" and "set (take 1 (db_faults s)) \<subseteq> {None}"
  shows "create_document s c data
     = (Inr (str_oid (ObjectId (db_next_oid s))),
        s\<lparr>db_calls := db_calls s @ [InsertOne c],
          db_faults := tl (db_faults s),
          db_next_oid := db_next_oid s + 1,
          db_collections :=
            AList.update c
              (documents s c
               @ [AList.update ''created_at'' (VDatetime (db_clock s))
                    (AList.update ''_id'' (VObjectId (ObjectId (db_next_oid s))) data)])
              (db_collections s)\<rparr>)"
  using assms
  by (cases "db_faults s") (auto simp: create_document_def Let_def split: option.splits)

lemma documents_insert:
  "db_collections s' = AList.update c ds (db_collections s) \<Longrightarrow>
   documents s' c' = (if c' = c then ds else documents s c')"
  by (simp add: documents_def update_conv')

lemma stored_fields:
  "k \<noteq> ''_id'' \<Longrightarrow> k \<noteq> ''created_at'' \<Longrightarrow>
   map_of (AList.update ''created_at'' t (AList.update ''_id'' i data)) k = map_of data k"
  by (simp add: update_conv')

lemma take_two_faults:
  "set (take 2 fs) \<subseteq> {None} \<Longrightarrow>
   set (take 1 fs) \<subseteq> {None} \<and> set (take 1 (tl fs)) \<subseteq> {None}"
  by (cases fs; cases "tl fs") (auto simp: numeral_2_eq_2)

text \<open>
  Claim C1. With the store connected and raising no fault on its next two operations,
  \<open>create_booking\<close> returns the identifier of the booking and adds exactly one record to
  the collection \<open>booking\<close>, which holds the fields of the payload, and exactly one
  record to the collection \<open>lead\<close>, and changes no other collection. The lead has the
  source \<open>booking\<close>, the booking's service as its tag, the booking's student name, email
  and phone as its name, email and phone, and a message made of the booking's service,
  date, time and instructor (\<open>Any\<close> when there is none).
\<close>

theorem create_booking_creates:
  assumes "db_connected s" and "set (take 2 (db_faults s)) \<subseteq> {None}"
  shows "\<exists>booking lead s'.
      create_booking s payload
        = (Inr [(''success'', VBool True),
                (''booking_id'', VStr (str_oid (ObjectId (db_next_oid s))))], s')
    \<and> documents s' ''booking'' = documents s ''booking'' @ [booking]
    \<and> documents s' ''lead'' = documents s ''lead'' @ [lead]
    \<and> (\<forall>c. c \<noteq> ''booking'' \<longrightarrow> c \<noteq> ''lead'' \<longrightarrow> documents s' c = documents s c)
    \<and> (\<forall>k. k \<noteq> ''_id'' \<longrightarrow> k \<noteq> ''created_at'' \<longrightarrow>
           map_of booking k = map_of (BookingCreate_model_dump payload) k)
    \<and> map_of lead ''source'' = Some (VStr ''booking'')
    \<and> map_of lead ''tag'' = Some (VStr (service payload))
    \<and> map_of lead ''name'' = Some (VStr (student_name payload))
    \<and> map_of lead ''email'' = Some (VStr (BookingCreate.email payload))
    \<and> map_of lead ''phone'' = Some (VStr (BookingCreate.phone payload))
    \<and> map_of lead ''message''
        = Some (VStr (''Booking requested for '' @ service payload @ '' on '' @ date payload
                      @ '' at '' @ time payload @ '' with instructor ''
                      @ (case instructor payload of
                           None \<Rightarrow> ''Any''
                         | Some i \<Rightarrow> if i = [] then ''Any'' else i)
                      @ ''.''))"
proof -
  define booking where
    "booking = AList.update ''created_at'' (VDatetime (db_clock s))
       (AList.update ''_id'' (VObjectId (ObjectId (db_next_oid s)))
          (BookingCreate_model_dump payload))"
  define s1 where
    "s1 = s\<lparr>db_calls := db_calls s @ [InsertOne ''booking''],
            db_faults := tl (db_faults s),
            db_next_oid := db_next_oid s + 1,
            db_collections :=
              AList.update ''booking'' (documents s ''booking'' @ [booking]) (db_collections s)\<rparr>"
  define lead where
    "lead = AList.update ''created_at'' (VDatetime (db_clock s1))
       (AList.update ''_id'' (VObjectId (ObjectId (db_next_oid s1))) (lead_doc payload))"
  define s2 where
    "s2 = s1\<lparr>db_calls := db_calls s1 @ [InsertOne ''lead''],
             db_faults := tl (db_faults s1),
             db_next_oid := db_next_oid s1 + 1,
             db_collections :=
               AList.update ''lead'' (documents s1 ''lead'' @ [lead]) (db_collections s1)\<rparr>"
  from take_two_faults [OF assms(2)]
  have f1: "set (take 1 (db_faults s)) \<subseteq> {None}"
    and f2: "set (take 1 (tl (db_faults s))) \<subseteq> {None}" by simp_all
  have first: "create_document s ''booking'' (BookingCreate_model_dump payload)
                 = (Inr (str_oid (ObjectId (db_next_oid s))), s1)"
    unfolding s1_def booking_def by (rule create_document_ok [OF assms(1) f1])
  have c1: "db_connected s1" and g1: "set (take 1 (db_faults s1)) \<subseteq> {None}"
    using assms(1) f2 by (simp_all add: s1_def)
  have second: "create_document s1 ''lead'' (lead_doc payload)
                  = (Inr (str_oid (ObjectId (db_next_oid s1))), s2)"
    unfolding s2_def lead_def by (rule create_document_ok [OF c1 g1])
  have run: "create_booking s payload
        = (Inr [(''success'', VBool True),
                (''booking_id'', VStr (str_oid (ObjectId (db_next_oid s))))], s2)"
    by (simp add: create_booking_def first second)
  have d1: "\<And>c. documents s1 c = (if c = ''booking'' then documents s ''booking'' @ [booking]
                                     else documents s c)"
    by (rule documents_insert) (simp add: s1_def)
  have d2: "\<And>c. documents s2 c = (if c = ''lead'' then documents s1 ''lead'' @ [lead]
                                     else documents s1 c)"
    by (rule documents_insert) (simp add: s2_def)
  have docs: "documents s2 ''booking'' = documents s ''booking'' @ [booking]"
    "documents s2 ''lead'' = documents s ''lead'' @ [lead]"
    "\<forall>c. c \<noteq> ''booking'' \<longrightarrow> c \<noteq> ''lead'' \<longrightarrow> documents s2 c = documents s c"
    by (simp_all add: d1 d2)
  have bk: "\<forall>k. k \<noteq> ''_id'' \<longrightarrow> k \<noteq> ''created_at'' \<longrightarrow>
           map_of booking k = map_of (BookingCreate_model_dump payload) k"
    by (simp add: booking_def stored_fields)
  have ld: "\<And>k. k \<noteq> ''_id'' \<Longrightarrow> k \<noteq> ''created_at'' \<Longrightarrow>
           map_of lead k = map_of (lead_doc payload) k"
    by (simp add: lead_def stored_fields)
  have fields: "map_of lead ''source'' = Some (VStr ''booking'')"
    "map_of lead ''tag'' = Some (VStr (service payload))"
    "map_of lead ''name'' = Some (VStr (student_name payload))"
    "map_of lead ''email'' = Some (VStr (BookingCreate.email payload))"
    "map_of lead ''phone'' = Some (VStr (BookingCreate.phone payload))"
    "map_of lead ''message''
        = Some (VStr (''Booking requested for '' @ service payload @ '' on '' @ date payload
                      @ '' at '' @ time payload @ '' with instructor ''
                      @ (case instructor payload of
                           None \<Rightarrow> ''Any''
                         | Some i \<Rightarrow> if i = [] then ''Any'' else i)
                      @ ''.''))"
    by (simp_all add: ld lead_doc_def or_text_def)
  from run docs bk fields show ?thesis by blast
qed

theorem create_booking_creates_witness:
  "fst (create_booking example_store example_booking)
     = Inr [(''success'', VBool True), (''booking_id'', VStr ''000000000000000000000010'')]
   \<and> length (documents (snd (create_booking example_store example_booking)) ''booking'') = 6
   \<and> length (documents (snd (create_booking example_store example_booking)) ''lead'') = 1
   \<and> map_of (last (documents (snd (create_booking example_store example_booking)) ''lead''))
        ''tag'' = Some (VStr ''Road Test Prep'')
   \<and> map_of (last (documents (snd (create_booking example_store example_booking)) ''lead''))
        ''source'' = Some (VStr ''booking'')"
proof -
  have c: "db_connected example_store"
    by (simp add: example_store_def)
  have f: "set (take 2 (db_faults example_store)) \<subseteq> {None}"
    by (simp add: example_store_def)
  have n: "db_next_oid example_store = 16"
    by (simp add: example_store_def)
  have oid: "str_oid (ObjectId 16) = ''000000000000000000000010''"
    by code_simp
  have before: "length (documents example_store ''booking'') = 5"
    "documents example_store ''lead'' = []"
    by (simp_all add: documents_def example_store_def)
  have sv: "service example_booking = ''Road Test Prep''"
    by (simp add: example_booking_def)
  from create_booking_creates [OF c f, of example_booking] show ?thesis
    by (elim exE conjE) (simp add: n oid before sv)
qed

lemma str_field_ok:
  "field_issues (str_field body k) = [] \<Longrightarrow>
   map_of body k = Some (VStr (projr (str_field body k)))"
  by (auto simp: str_field_def field_issues_def split: option.splits pyval.splits)

lemma validate_ContactMessage_message:
  "validate_ContactMessage ve body = Inr payload \<Longrightarrow>
   map_of body ''message'' = Some (VStr (ContactMessage.message payload))"
  by (auto simp: validate_ContactMessage_def Let_def str_field_ok split: if_splits)

lemma example_contact_valid:
  "validate_ContactMessage Some example_contact_body
     = Inr \<lparr>ContactMessage.name = ''A'', ContactMessage.email = ''a@b.com'',
            ContactMessage.subject = ''Hi'', ContactMessage.message = ''test''\<rparr>"
  by (simp add: validate_ContactMessage_def example_contact_body_def str_field_def
        email_field_def field_issues_def)

text \<open>
  Claim C3. For a body that the schema \<open>ContactMessage\<close> accepts, with the store
  connected and raising no fault on its next operation, \<open>POST /api/contact\<close> adds exactly
  one record to the collection \<open>lead\<close> and changes no other collection; the record has
  the source \<open>contact\<close> and the message of the body, unchanged. The instance below is the
  body \<open>{name: "A", email: "a@b.com", subject: "Hi", message: "test"}\<close>.
\<close>

theorem contact_stores_lead:
  assumes "validate_ContactMessage validate_email body = Inr payload"
    and "db_connected s" and "set (take 1 (db_faults s)) \<subseteq> {None}"
  shows "\<exists>stored s'.
      post_api_contact validate_email s body
        = (Inr [(''success'', VBool True),
                (''lead_id'', VStr (str_oid (ObjectId (db_next_oid s))))], s')
    \<and> documents s' ''lead'' = documents s ''lead'' @ [stored]
    \<and> (\<forall>c. c \<noteq> ''lead'' \<longrightarrow> documents s' c = documents s c)
    \<and> map_of stored ''source'' = Some (VStr ''contact'')
    \<and> map_of stored ''message'' = map_of body ''message''
    \<and> map_of stored ''message'' = Some (VStr (ContactMessage.message payload))"
proof -
  define doc where
    "doc = AList.update ''source'' (VStr ''contact'') (ContactMessage_model_dump payload)"
  define stored where
    "stored = AList.update ''created_at'' (VDatetime (db_clock s))
       (AList.update ''_id'' (VObjectId (ObjectId (db_next_oid s))) doc)"
  define s1 where
    "s1 = s\<lparr>db_calls := db_calls s @ [InsertOne ''lead''],
            db_faults := tl (db_faults s),
            db_next_oid := db_next_oid s + 1,
            db_collections :=
              AList.update ''lead'' (documents s ''lead'' @ [stored]) (db_collections s)\<rparr>"
  have ins: "create_document s ''lead'' doc = (Inr (str_oid (ObjectId (db_next_oid s))), s1)"
    unfolding s1_def stored_def by (rule create_document_ok [OF assms(2,3)])
  have run: "post_api_contact validate_email s body
        = (Inr [(''success'', VBool True),
                (''lead_id'', VStr (str_oid (ObjectId (db_next_oid s))))], s1)"
    using ins by (simp add: post_api_contact_def assms(1) contact_def doc_def)
  have d1: "\<And>c. documents s1 c = (if c = ''lead'' then documents s ''lead'' @ [stored]
                                     else documents s c)"
    by (rule documents_insert) (simp add: s1_def)
  have docs: "documents s1 ''lead'' = documents s ''lead'' @ [stored]"
    "\<forall>c. c \<noteq> ''lead'' \<longrightarrow> documents s1 c = documents s c"
    by (simp_all add: d1)
  have st: "\<And>k. k \<noteq> ''_id'' \<Longrightarrow> k \<noteq> ''created_at'' \<Longrightarrow> map_of stored k = map_of doc k"
    by (simp add: stored_def stored_fields)
  have src: "map_of stored ''source'' = Some (VStr ''contact'')"
    by (simp add: st doc_def update_conv')
  have msg: "map_of stored ''message'' = Some (VStr (ContactMessage.message payload))"
    by (simp add: st doc_def update_conv' ContactMessage_model_dump_def)
  from validate_ContactMessage_message [OF assms(1)] msg
  have same: "map_of stored ''message'' = map_of body ''message''" by simp
  from run docs src msg same show ?thesis by blast
qed

theorem contact_stores_lead_witness:
  "length (documents (snd (post_api_contact Some example_store example_contact_body)) ''lead'') = 1
   \<and> map_of (last (documents (snd (post_api_contact Some example_store example_contact_body))
                ''lead'')) ''source'' = Some (VStr ''contact'')
   \<and> map_of (last (documents (snd (post_api_contact Some example_store example_contact_body))
                ''lead'')) ''message'' = Some (VStr ''test'')"
proof -
  have c: "db_connected example_store"
    by (simp add: example_store_def)
  have f: "set (take 1 (db_faults example_store)) \<subseteq> {None}"
    by (simp add: example_store_def)
  have before: "documents example_store ''lead'' = []"
    by (simp add: documents_def example_store_def)
  from contact_stores_lead [OF example_contact_valid c f] show ?thesis
    by (elim exE conjE) (simp add: before)
qed

lemma validate_LeadCreate_fields:
  assumes "validate_LeadCreate ve body = Inr payload"
  shows "source payload = projr (str_field_default body ''source'' ''website'')"
    and "LeadCreate.phone payload = projr (optional_str_field body ''phone'')"
    and "LeadCreate.message payload = projr (optional_str_field body ''message'')"
    and "tag payload = projr (optional_str_field body ''tag'')"
  using assms by (auto simp: validate_LeadCreate_def Let_def split: if_splits)

lemma example_lead_valid:
  "validate_LeadCreate Some example_lead_body
     = Inr \<lparr>LeadCreate.name = ''A'', LeadCreate.email = ''a@b.com'', LeadCreate.phone = None,
            source = ''website'', LeadCreate.message = None, tag = None\<rparr>"
  by (simp add: validate_LeadCreate_def example_lead_body_def str_field_def
        email_field_def field_issues_def optional_str_field_def str_field_default_def)

text \<open>
  Claim C2. For a body that the schema \<open>LeadCreate\<close> accepts and that has no field
  \<open>source\<close>, with the store connected and raising no fault on its next operation,
  \<open>POST /api/leads\<close> adds one record to the collection \<open>lead\<close> whose source is the text
  \<open>website\<close>; each of \<open>phone\<close>, \<open>message\<close> and \<open>tag\<close> that the body does not have is
  \<open>None\<close> in the record.
\<close>

theorem lead_source_default:
  assumes "validate_LeadCreate validate_email body = Inr payload"
    and "map_of body ''source'' = None"
    and "db_connected s" and "set (take 1 (db_faults s)) \<subseteq> {None}"
  shows "\<exists>stored s'.
      post_api_leads validate_email s body
        = (Inr [(''success'', VBool True),
                (''lead_id'', VStr (str_oid (ObjectId (db_next_oid s))))], s')
    \<and> documents s' ''lead'' = documents s ''lead'' @ [stored]
    \<and> map_of stored ''source'' = Some (VStr ''website'')
    \<and> (map_of body ''phone'' = None \<longrightarrow> map_of stored ''phone'' = Some VNone)
    \<and> (map_of body ''message'' = None \<longrightarrow> map_of stored ''message'' = Some VNone)
    \<and> (map_of body ''tag'' = None \<longrightarrow> map_of stored ''tag'' = Some VNone)"
proof -
  define stored where
    "stored = AList.update ''created_at'' (VDatetime (db_clock s))
       (AList.update ''_id'' (VObjectId (ObjectId (db_next_oid s)))
          (LeadCreate_model_dump payload))"
  define s1 where
    "s1 = s\<lparr>db_calls := db_calls s @ [InsertOne ''lead''],
            db_faults := tl (db_faults s),
            db_next_oid := db_next_oid s + 1,
            db_collections :=
              AList.update ''lead'' (documents s ''lead'' @ [stored]) (db_collections s)\<rparr>"
  have ins: "create_document s ''lead'' (LeadCreate_model_dump payload)
               = (Inr (str_oid (ObjectId (db_next_oid s))), s1)"
    unfolding s1_def stored_def by (rule create_document_ok [OF assms(3,4)])
  have run: "post_api_leads validate_email s body
        = (Inr [(''success'', VBool True),
                (''lead_id'', VStr (str_oid (ObjectId (db_next_oid s))))], s1)"
    using ins by (simp add: post_api_leads_def assms(1) create_lead_def)
  have docs: "documents s1 ''lead'' = documents s ''lead'' @ [stored]"
    using documents_insert [of s1 "''lead''" "documents s ''lead'' @ [stored]" s "''lead''"]
    by (simp add: s1_def)
  have st: "\<And>k. k \<noteq> ''_id'' \<Longrightarrow> k \<noteq> ''created_at'' \<Longrightarrow>
              map_of stored k = map_of (LeadCreate_model_dump payload) k"
    by (simp add: stored_def stored_fields)
  note fs = validate_LeadCreate_fields [OF assms(1)]
  have src: "map_of stored ''source'' = Some (VStr ''website'')"
    using assms(2) by (simp add: st LeadCreate_model_dump_def fs str_field_default_def)
  have opt: "map_of body ''phone'' = None \<longrightarrow> map_of stored ''phone'' = Some VNone"
    "map_of body ''message'' = None \<longrightarrow> map_of stored ''message'' = Some VNone"
    "map_of body ''tag'' = None \<longrightarrow> map_of stored ''tag'' = Some VNone"
    by (simp_all add: st LeadCreate_model_dump_def fs optional_str_field_def optional_value_def)
  from run docs src opt show ?thesis
    by (intro exI [of _ stored] exI [of _ s1]) simp
qed

theorem lead_source_default_witness:
  "length (documents (snd (post_api_leads Some example_store example_lead_body)) ''lead'') = 1
   \<and> map_of (last (documents (snd (post_api_leads Some example_store example_lead_body))
                ''lead'')) ''source'' = Some (VStr ''website'')
   \<and> map_of (last (documents (snd (post_api_leads Some example_store example_lead_body))
                ''lead'')) ''phone'' = Some VNone
   \<and> map_of (last (documents (snd (post_api_leads Some example_store example_lead_body))
                ''lead'')) ''tag'' = Some VNone"
proof -
  have c: "db_connected example_store"
    by (simp add: example_store_def)
  have f: "set (take 1 (db_faults example_store)) \<subseteq> {None}"
    by (simp add: example_store_def)
  have b: "map_of example_lead_body ''source'' = None"
    "map_of example_lead_body ''phone'' = None"
    "map_of example_lead_body ''tag'' = None"
    by (simp_all add: example_lead_body_def)
  have before: "documents example_store ''lead'' = []"
    by (simp add: documents_def example_store_def)
  from lead_source_default [OF example_lead_valid b(1) c f] show ?thesis
    by (elim exE conjE) (simp add: before b)
qed

section \<open>Storage faults\<close>

lemma create_document_calls:
  "create_document s c data = (r, s1) \<Longrightarrow> db_calls s1 = db_calls s @ [InsertOne c]"
  by (auto simp: create_document_def Let_def split: if_splits list.splits option.splits)

lemma get_documents_calls:
  "get_documents s c limit = (r, s1) \<Longrightarrow> db_calls s1 = db_calls s @ [Find c limit]"
  by (auto simp: get_documents_def Let_def split: if_splits list.splits option.splits)

text \<open>
  Claim C7. Whatever fault \<open>e\<close> an insert or a query raises (the store unavailable, a
  write or a read failure), the endpoint that made the call fails with the
  \<open>HTTPException\<close> of status 500 whose detail is \<open>str(e)\<close>, and the store is left as the
  failed call left it: the call was made once and nothing was tried again. For
  \<open>create_booking\<close> this holds of the insert of the booking and of the insert of the
  lead.
\<close>

theorem storage_fault_500:
  "(create_document s ''booking'' (BookingCreate_model_dump booking) = (Inl e, s1) \<longrightarrow>
      create_booking s booking = (Inl (HTTPException 500 (str_error e)), s1)
      \<and> db_calls s1 = db_calls s @ [InsertOne ''booking''])
   \<and> (create_document s ''booking'' (BookingCreate_model_dump booking) = (Inr booking_id, s1) \<longrightarrow>
      create_document s1 ''lead'' (lead_doc booking) = (Inl e, s2) \<longrightarrow>
      create_booking s booking = (Inl (HTTPException 500 (str_error e)), s2)
      \<and> db_calls s2 = db_calls s @ [InsertOne ''booking'', InsertOne ''lead''])
   \<and> (create_document s ''lead'' (LeadCreate_model_dump lead) = (Inl e, s1) \<longrightarrow>
      create_lead s lead = (Inl (HTTPException 500 (str_error e)), s1)
      \<and> db_calls s1 = db_calls s @ [InsertOne ''lead''])
   \<and> (create_document s ''lead''
         (AList.update ''source'' (VStr ''contact'') (ContactMessage_model_dump msg)) = (Inl e, s1) \<longrightarrow>
      contact s msg = (Inl (HTTPException 500 (str_error e)), s1)
      \<and> db_calls s1 = db_calls s @ [InsertOne ''lead''])
   \<and> (get_documents s ''booking'' limit = (Inl e, s1) \<longrightarrow>
      list_bookings s limit = (Inl (HTTPException 500 (str_error e)), s1)
      \<and> db_calls s1 = db_calls s @ [Find ''booking'' limit])
   \<and> (get_documents s ''lead'' limit = (Inl e, s1) \<longrightarrow>
      list_leads s limit = (Inl (HTTPException 500 (str_error e)), s1)
      \<and> db_calls s1 = db_calls s @ [Find ''lead'' limit])"
proof (intro conjI impI)
  assume "create_document s ''booking'' (BookingCreate_model_dump booking) = (Inl e, s1)"
  then show "create_booking s booking = (Inl (HTTPException 500 (str_error e)), s1)"
    and "db_calls s1 = db_calls s @ [InsertOne ''booking'']"
    by (simp_all add: create_booking_def create_document_calls)
next
  assume a: "create_document s ''booking'' (BookingCreate_model_dump booking) = (Inr booking_id, s1)"
    and b: "create_document s1 ''lead'' (lead_doc booking) = (Inl e, s2)"
  then show "create_booking s booking = (Inl (HTTPException 500 (str_error e)), s2)"
    by (simp add: create_booking_def)
  from create_document_calls [OF a] create_document_calls [OF b]
  show "db_calls s2 = db_calls s @ [InsertOne ''booking'', InsertOne ''lead'']"
    by simp
next
  assume "create_document s ''lead'' (LeadCreate_model_dump lead) = (Inl e, s1)"
  then show "create_lead s lead = (Inl (HTTPException 500 (str_error e)), s1)"
    and "db_calls s1 = db_calls s @ [InsertOne ''lead'']"
    by (simp_all add: create_lead_def create_document_calls)
next
  assume "create_document s ''lead''
         (AList.update ''source'' (VStr ''contact'') (ContactMessage_model_dump msg)) = (Inl e, s1)"
  then show "contact s msg = (Inl (HTTPException 500 (str_error e)), s1)"
    and "db_calls s1 = db_calls s @ [InsertOne ''lead'']"
    by (simp_all add: contact_def create_document_calls)
next
  assume "get_documents s ''booking'' limit = (Inl e, s1)"
  then show "list_bookings s limit = (Inl (HTTPException 500 (str_error e)), s1)"
    and "db_calls s1 = db_calls s @ [Find ''booking'' limit]"
    by (simp_all add: list_bookings_def get_documents_calls)
next
  assume "get_documents s ''lead'' limit = (Inl e, s1)"
  then show "list_leads s limit = (Inl (HTTPException 500 (str_error e)), s1)"
    and "db_calls s1 = db_calls s @ [Find ''lead'' limit]"
    by (simp_all add: list_leads_def get_documents_calls)
qed

theorem storage_fault_500_witness:
  "fst (list_leads (example_store\<lparr>db_connected := False\<rparr>) 2)
     = Inl (HTTPException 500 (str_error StorageUnavailableError))
   \<and> fst (list_bookings (example_store\<lparr>db_faults := [Some ''read failed'']\<rparr>) 2)
     = Inl (HTTPException 500 ''read failed'')
   \<and> db_calls (snd (list_bookings (example_store\<lparr>db_faults := [Some ''read failed'']\<rparr>) 2))
     = [Find ''booking'' 2]
   \<and> fst (create_booking (example_store\<lparr>db_faults := [None, Some ''write failed'']\<rparr>)
             example_booking)
     = Inl (HTTPException 500 ''write failed'')
   \<and> db_calls (snd (create_booking (example_store\<lparr>db_faults := [None, Some ''write failed'']\<rparr>)
                        example_booking))
     = [InsertOne ''booking'', InsertOne ''lead'']"
proof -
  define sU where "sU = example_store\<lparr>db_connected := False\<rparr>"
  define sR where "sR = example_store\<lparr>db_faults := [Some ''read failed'']\<rparr>"
  define sW where "sW = example_store\<lparr>db_faults := [None, Some ''write failed'']\<rparr>"
  have u: "get_documents sU ''lead'' 2
             = (Inl StorageUnavailableError, sU\<lparr>db_calls := [Find ''lead'' 2]\<rparr>)"
    by (simp add: get_documents_def sU_def example_store_def)
  have r: "get_documents sR ''booking'' 2
             = (Inl (StorageReadError ''read failed''),
                sR\<lparr>db_calls := [Find ''booking'' 2], db_faults := []\<rparr>)"
    by (simp add: get_documents_def sR_def example_store_def)
  obtain res sW1 where w1: "create_document sW ''booking'' (BookingCreate_model_dump example_booking)
                              = (res, sW1)"
    by (cases "create_document sW ''booking'' (BookingCreate_model_dump example_booking)")
  have w1': "res = Inr (str_oid (ObjectId 16))" "db_connected sW1"
    "db_faults sW1 = [Some ''write failed'']" "db_calls sW = []"
    using w1 by (auto simp: create_document_def sW_def example_store_def Let_def)
  have w2: "create_document sW1 ''lead'' (lead_doc example_booking)
              = (Inl (StorageWriteError ''write failed''),
                 sW1\<lparr>db_calls := db_calls sW1 @ [InsertOne ''lead''], db_faults := []\<rparr>)"
    by (simp add: create_document_def w1')
  have calls: "db_calls sU = []" "db_calls sR = []"
    by (simp_all add: sU_def sR_def example_store_def)
  from storage_fault_500
         [where s = sU and limit = 2 and e = StorageUnavailableError
            and ?s1.0 = "sU\<lparr>db_calls := [Find ''lead'' 2]\<rparr>"] u
  have c1: "fst (list_leads sU 2) = Inl (HTTPException 500 (str_error StorageUnavailableError))"
    by simp
  from storage_fault_500
         [where s = sR and limit = 2 and e = "StorageReadError ''read failed''"
            and ?s1.0 = "sR\<lparr>db_calls := [Find ''booking'' 2], db_faults := []\<rparr>"] r calls
  have c2: "fst (list_bookings sR 2) = Inl (HTTPException 500 ''read failed'')"
    "db_calls (snd (list_bookings sR 2)) = [Find ''booking'' 2]"
    by simp_all
  from storage_fault_500
         [where s = sW and booking = example_booking and e = "StorageWriteError ''write failed''"
            and booking_id = "str_oid (ObjectId 16)" and ?s1.0 = sW1
            and ?s2.0 = "sW1\<lparr>db_calls := db_calls sW1 @ [InsertOne ''lead''], db_faults := []\<rparr>"]
       w1 w1' w2
  have c3: "fst (create_booking sW example_booking) = Inl (HTTPException 500 ''write failed'')"
    "db_calls (snd (create_booking sW example_booking)) = [InsertOne ''booking'', InsertOne ''lead'']"
    by simp_all
  from c1 c2 c3 show ?thesis
    by (simp add: sU_def sR_def sW_def)
qed

section \<open>Rejected requests\<close>

lemma str_field_missing:
  "map_of body k = None \<Longrightarrow> field_issues (str_field body k) = [(k, Missing)]"
  by (simp add: str_field_def field_issues_def)

lemma email_field_missing:
  "map_of body k = None \<Longrightarrow> field_issues (email_field ve body k) = [(k, Missing)]"
  by (simp add: email_field_def field_issues_def)

lemma email_field_malformed:
  "malformed_email ve body \<Longrightarrow>
   field_issues (email_field ve body ''email'') = [(''email'', ValueError)]"
  by (auto simp: malformed_email_def email_field_def field_issues_def
           split: option.splits pyval.splits)

lemma booking_rejected:
  assumes "(\<exists>k \<in> set BookingCreate_required. map_of body k = None) \<or> malformed_email ve body"
  shows "\<exists>es. validate_BookingCreate ve body = Inl es
     \<and> (\<forall>k \<in> set BookingCreate_required. map_of body k = None \<longrightarrow> (k, Missing) \<in> set es)
     \<and> (malformed_email ve body \<longrightarrow> (''email'', ValueError) \<in> set es)"
  using assms unfolding validate_BookingCreate_def Let_def BookingCreate_required_def
  by (auto simp: str_field_missing email_field_missing email_field_malformed)

lemma lead_rejected:
  assumes "(\<exists>k \<in> set LeadCreate_required. map_of body k = None) \<or> malformed_email ve body"
  shows "\<exists>es. validate_LeadCreate ve body = Inl es
     \<and> (\<forall>k \<in> set LeadCreate_required. map_of body k = None \<longrightarrow> (k, Missing) \<in> set es)
     \<and> (malformed_email ve body \<longrightarrow> (''email'', ValueError) \<in> set es)"
  using assms unfolding validate_LeadCreate_def Let_def LeadCreate_required_def
  by (auto simp: str_field_missing email_field_missing email_field_malformed)

lemma contact_rejected:
  assumes "(\<exists>k \<in> set ContactMessage_required. map_of body k = None) \<or> malformed_email ve body"
  shows "\<exists>es. validate_ContactMessage ve body = Inl es
     \<and> (\<forall>k \<in> set ContactMessage_required. map_of body k = None \<longrightarrow> (k, Missing) \<in> set es)
     \<and> (malformed_email ve body \<longrightarrow> (''email'', ValueError) \<in> set es)"
  using assms unfolding validate_ContactMessage_def Let_def ContactMessage_required_def
  by (auto simp: str_field_missing email_field_missing email_field_malformed)

text \<open>
  Claim C6. A body that lacks a required field of the schema, or whose email the
  address validator rejects, is rejected by each of \<open>POST /api/bookings\<close>,
  \<open>POST /api/leads\<close> and \<open>POST /api/contact\<close> with a validation failure that names
  every missing field and the malformed email; the endpoint's function is not called,
  so the store, its call log included, is exactly as before: nothing was inserted.
\<close>

theorem invalid_input_rejected:
  "((\<exists>k \<in> set BookingCreate_required. map_of body k = None)
      \<or> malformed_email validate_email body \<longrightarrow>
      (\<exists>es. post_api_bookings validate_email s body = (Inl (RequestValidationError es), s)
         \<and> (\<forall>k \<in> set BookingCreate_required. map_of body k = None \<longrightarrow> (k, Missing) \<in> set es)
         \<and> (malformed_email validate_email body \<longrightarrow> (''email'', ValueError) \<in> set es)))
   \<and> ((\<exists>k \<in> set LeadCreate_required. map_of body k = None)
      \<or> malformed_email validate_email body \<longrightarrow>
      (\<exists>es. post_api_leads validate_email s body = (Inl (RequestValidationError es), s)
         \<and> (\<forall>k \<in> set LeadCreate_required. map_of body k = None \<longrightarrow> (k, Missing) \<in> set es)
         \<and> (malformed_email validate_email body \<longrightarrow> (''email'', ValueError) \<in> set es)))
   \<and> ((\<exists>k \<in> set ContactMessage_required. map_of body k = None)
      \<or> malformed_email validate_email body \<longrightarrow>
      (\<exists>es. post_api_contact validate_email s body = (Inl (RequestValidationError es), s)
         \<and> (\<forall>k \<in> set ContactMessage_required. map_of body k = None \<longrightarrow> (k, Missing) \<in> set es)
         \<and> (malformed_email validate_email body \<longrightarrow> (''email'', ValueError) \<in> set es)))"
proof (intro conjI impI)
  assume "(\<exists>k \<in> set BookingCreate_required. map_of body k = None)
      \<or> malformed_email validate_email body"
  from booking_rejected [OF this] obtain es where
    "validate_BookingCreate validate_email body = Inl es"
    "\<forall>k \<in> set BookingCreate_required. map_of body k = None \<longrightarrow> (k, Missing) \<in> set es"
    "malformed_email validate_email body \<longrightarrow> (''email'', ValueError) \<in> set es"
    by (elim exE conjE)
  then show "\<exists>es. post_api_bookings validate_email s body = (Inl (RequestValidationError es), s)
         \<and> (\<forall>k \<in> set BookingCreate_required. map_of body k = None \<longrightarrow> (k, Missing) \<in> set es)
         \<and> (malformed_email validate_email body \<longrightarrow> (''email'', ValueError) \<in> set es)"
    by (intro exI [of _ es]) (simp add: post_api_bookings_def)
next
  assume "(\<exists>k \<in> set LeadCreate_required. map_of body k = None)
      \<or> malformed_email validate_email body"
  from lead_rejected [OF this] obtain es where
    "validate_LeadCreate validate_email body = Inl es"
    "\<forall>k \<in> set LeadCreate_required. map_of body k = None \<longrightarrow> (k, Missing) \<in> set es"
    "malformed_email validate_email body \<longrightarrow> (''email'', ValueError) \<in> set es"
    by (elim exE conjE)
  then show "\<exists>es. post_api_leads validate_email s body = (Inl (RequestValidationError es), s)
         \<and> (\<forall>k \<in> set LeadCreate_required. map_of body k = None \<longrightarrow> (k, Missing) \<in> set es)
         \<and> (malformed_email validate_email body \<longrightarrow> (''email'', ValueError) \<in> set es)"
    by (intro exI [of _ es]) (simp add: post_api_leads_def)
next
  assume "(\<exists>k \<in> set ContactMessage_required. map_of body k = None)
      \<or> malformed_email validate_email body"
  from contact_rejected [OF this] obtain es where
    "validate_ContactMessage validate_email body = Inl es"
    "\<forall>k \<in> set ContactMessage_required. map_of body k = None \<longrightarrow> (k, Missing) \<in> set es"
    "malformed_email validate_email body \<longrightarrow> (''email'', ValueError) \<in> set es"
    by (elim exE conjE)
  then show "\<exists>es. post_api_contact validate_email s body = (Inl (RequestValidationError es), s)
         \<and> (\<forall>k \<in> set ContactMessage_required. map_of body k = None \<longrightarrow> (k, Missing) \<in> set es)
         \<and> (malformed_email validate_email body \<longrightarrow> (''email'', ValueError) \<in> set es)"
    by (intro exI [of _ es]) (simp add: post_api_contact_def)
qed

theorem invalid_input_rejected_witness:
  "post_api_bookings Some example_store example_lead_body
     = (Inl (RequestValidationError
               [(''student_name'', Missing), (''phone'', Missing), (''service'', Missing),
                (''date'', Missing), (''time'', Missing)]), example_store)
   \<and> snd (post_api_contact (\<lambda>text. None) example_store example_contact_body) = example_store
   \<and> (\<exists>es. fst (post_api_contact (\<lambda>text. None) example_store example_contact_body)
              = Inl (RequestValidationError es) \<and> (''email'', ValueError) \<in> set es)"
proof -
  have m: "\<exists>k \<in> set BookingCreate_required. map_of example_lead_body k = None"
    by (simp add: BookingCreate_required_def example_lead_body_def)
  have bad: "malformed_email (\<lambda>text. None) example_contact_body"
    by (simp add: malformed_email_def example_contact_body_def)
  have v: "validate_BookingCreate Some example_lead_body
     = Inl [(''student_name'', Missing), (''phone'', Missing), (''service'', Missing),
            (''date'', Missing), (''time'', Missing)]"
    by (simp add: validate_BookingCreate_def example_lead_body_def str_field_def
          email_field_def optional_str_field_def field_issues_def)
  from invalid_input_rejected [of example_lead_body Some example_store] m
  obtain es where "post_api_bookings Some example_store example_lead_body
     = (Inl (RequestValidationError es), example_store)"
    by blast
  moreover from this v have "es = [(''student_name'', Missing), (''phone'', Missing),
       (''service'', Missing), (''date'', Missing), (''time'', Missing)]"
    by (simp add: post_api_bookings_def)
  moreover from invalid_input_rejected [of example_contact_body "\<lambda>text. None" example_store] bad
  have "\<exists>es. post_api_contact (\<lambda>text. None) example_store example_contact_body
           = (Inl (RequestValidationError es), example_store)
         \<and> (''email'', ValueError) \<in> set es"
    by blast
  ultimately show ?thesis by auto
qed

end
